theory Spec2Isabelle
  imports Complex_Main
begin

section \<open>Arrays and the library calls of \<^verbatim>\<open>SparseNN/grangernet/utils.py\<close>\<close>

text \<open>
  The weight tensor \<^verbatim>\<open>W\<close> is a dense array indexed by (effect, cause, lag). It is
  modelled as nested lists of reals: the arithmetic of the module (norms, the product
  \<^verbatim>\<open>threshold * max\<close>, comparisons) is read over the reals, so rounding, overflow and
  NaN entries of the input are outside the model. The one place where the code divides,
  \<^verbatim>\<open>_W_norm[effect, cause] / np.max(_W_norm)\<close>, is modelled with NumPy's outcome for a
  zero divisor (no exception: \<^verbatim>\<open>nan\<close> or \<^verbatim>\<open>inf\<close>).
\<close>

type_synonym matrix = "real list list"
type_synonym tensor = "real list list list"

datatype assert_site = ModeCheck | DstSlashCheck

datatype error =
    AssertionError assert_site
  | IndexError
  | ValueError
  | TypeError
  | KeyError string
  | FileNotFoundError string

datatype npfloat = Finite real | PosInf | NegInf | NaN

text \<open>A rectangular array of shape \<open>(pe, pc, K)\<close>.\<close>

definition tensor_shape :: "nat \<Rightarrow> nat \<Rightarrow> nat \<Rightarrow> tensor \<Rightarrow> bool" where
  "tensor_shape pe pc K W =
     (length W = pe \<and> list_all (\<lambda>row. length row = pc \<and> list_all (\<lambda>v. length v = K) row) W)"

text \<open>\<^verbatim>\<open>np.linalg.norm(W, axis=-1)\<close>: the Euclidean norm of every lag vector.\<close>

definition l2_norm :: "real list \<Rightarrow> real" where
  "l2_norm v = sqrt (sum_list (map (\<lambda>x. x ^ 2) v))"

definition norm_last_axis :: "tensor \<Rightarrow> matrix" where
  "norm_last_axis W = map (map l2_norm) W"

text \<open>\<^verbatim>\<open>np.diag\<close> of a two-dimensional array: the entries \<open>(i, i)\<close> it has.\<close>

definition np_diag :: "matrix \<Rightarrow> real list" where
  "np_diag M =
     (case M of [] \<Rightarrow> []
      | r # _ \<Rightarrow> map (\<lambda>i. M ! i ! i) [0..<min (length M) (length r)])"

text \<open>\<^verbatim>\<open>np.max\<close> raises ValueError on an array with no element.\<close>

definition np_max :: "matrix \<Rightarrow> error + real" where
  "np_max M = (case concat M of [] \<Rightarrow> Inl ValueError | x # xs \<Rightarrow> Inr (fold max xs x))"

text \<open>
  \<^verbatim>\<open>zip(*np.where(M >= t))\<close> and \<^verbatim>\<open>zip(*np.where(M < t))\<close>: the index pairs of the
  selected cells, in row-major order.
\<close>

definition np_where_ge :: "matrix \<Rightarrow> real \<Rightarrow> (nat \<times> nat) list" where
  "np_where_ge M t =
     concat (map (\<lambda>i. map (\<lambda>j. (i, j)) (filter (\<lambda>j. M ! i ! j \<ge> t) [0..<length (M ! i)]))
       [0..<length M])"

definition np_where_lt :: "matrix \<Rightarrow> real \<Rightarrow> (nat \<times> nat) list" where
  "np_where_lt M t =
     concat (map (\<lambda>i. map (\<lambda>j. (i, j)) (filter (\<lambda>j. M ! i ! j < t) [0..<length (M ! i)]))
       [0..<length M])"

text \<open>Division and scaling of NumPy floats: a zero divisor gives \<^verbatim>\<open>nan\<close> or \<^verbatim>\<open>inf\<close>.\<close>

definition np_divide :: "real \<Rightarrow> real \<Rightarrow> npfloat" where
  "np_divide x y =
     (if y = 0 then (if x = 0 then NaN else if 0 < x then PosInf else NegInf)
      else Finite (x / y))"

fun np_scale :: "real \<Rightarrow> npfloat \<Rightarrow> npfloat" where
  "np_scale c (Finite x) = Finite (c * x)"
| "np_scale c NaN = NaN"
| "np_scale c PosInf = (if 0 < c then PosInf else if c < 0 then NegInf else NaN)"
| "np_scale c NegInf = (if 0 < c then NegInf else if c < 0 then PosInf else NaN)"

text \<open>Indexing a Python list with a non-negative index.\<close>

definition py_index :: "'a list \<Rightarrow> nat \<Rightarrow> error + 'a" where
  "py_index xs i = (if i < length xs then Inr (xs ! i) else Inl IndexError)"

section \<open>The autocorrelation detector\<close>

text \<open>
  \<^verbatim>\<open>
  def _has_autocorrelation(W):
      W_norm = np.linalg.norm(W, axis=-1)
      return not np.all(np.diag(W_norm) == 0)
  \<close>
\<close>

definition has_autocorrelation :: "tensor \<Rightarrow> bool" where
  "has_autocorrelation W = (\<not> list_all (\<lambda>x. x = 0) (np_diag (norm_last_axis W)))"

section \<open>The causal graph\<close>

text \<open>
  A \<^verbatim>\<open>graphviz.Digraph\<close> is its attribute dictionary and its body, the node and edge
  statements in the order they were added. An edge keeps its tail, its head, the number
  whose \<^verbatim>\<open>str\<close> is the \<^verbatim>\<open>penwidth\<close> attribute, and the \<^verbatim>\<open>arrowsize\<close> attribute.
\<close>

datatype stmt = Node string string | Edge string string npfloat string

record digraph =
  graph_attr :: "string \<rightharpoonup> string"
  body :: "stmt list"

definition Digraph :: digraph where
  "Digraph = \<lparr>graph_attr = Map.empty, body = []\<rparr>"

definition set_attr :: "string \<Rightarrow> string \<Rightarrow> digraph \<Rightarrow> digraph" where
  "set_attr k v dot = dot\<lparr>graph_attr := (graph_attr dot)(k \<mapsto> v)\<rparr>"

definition add_stmt :: "stmt \<Rightarrow> digraph \<Rightarrow> digraph" where
  "add_stmt s dot = dot\<lparr>body := body dot @ [s]\<rparr>"

text \<open>The loop \<^verbatim>\<open>for var in var_names: dot.node(var, var)\<close>.\<close>

fun add_nodes :: "string list \<Rightarrow> digraph \<Rightarrow> digraph" where
  "add_nodes [] dot = dot"
| "add_nodes (var # vars) dot = add_nodes vars (add_stmt (Node var var) dot)"

text \<open>
  The loop over the selected cells:
  \<^verbatim>\<open>
  for (effect, cause) in zipper(np.where(_W_norm >= threshold * np.max(_W_norm))):
      _weight = _W_norm[effect, cause] / np.max(_W_norm)
      dot.edge(var_names[cause], var_names[effect], penwidth=str(5 * _weight), arrowsize='1')
  \<close>
\<close>

fun add_edges :: "matrix \<Rightarrow> string list \<Rightarrow> (nat \<times> nat) list \<Rightarrow> digraph \<Rightarrow> error + digraph" where
  "add_edges N var_names [] dot = Inr dot"
| "add_edges N var_names ((effect, cause) # rest) dot =
     (case np_max N of
        Inl e \<Rightarrow> Inl e
      | Inr m \<Rightarrow>
          (let weight = np_divide (N ! effect ! cause) m in
           case py_index var_names cause of
             Inl e \<Rightarrow> Inl e
           | Inr tail_name \<Rightarrow>
               (case py_index var_names effect of
                  Inl e \<Rightarrow> Inl e
                | Inr head_name \<Rightarrow>
                    add_edges N var_names rest
                      (add_stmt (Edge tail_name head_name (np_scale 5 weight) ''1'') dot))))"

text \<open>
  \<^verbatim>\<open>causal_graph(W, var_names, threshold=0.1, use_circo_layout=None, dst=None,
  filename='graph')\<close> returns the graph; the second component of the result is the
  request \<^verbatim>\<open>dot.render(filename, dst, view=False, cleanup=True)\<close> made when \<^verbatim>\<open>dst\<close> is
  given.
\<close>

definition causal_graph ::
  "tensor \<Rightarrow> string list \<Rightarrow> real \<Rightarrow> bool option \<Rightarrow> string option \<Rightarrow> string
     \<Rightarrow> error + (digraph \<times> (string \<times> string) option)" where
  "causal_graph W var_names threshold use_circo_layout dst filename =
     (let W_norm = norm_last_axis W;
          dot = set_attr ''rankdir'' ''LR'' (set_attr ''margin'' ''0'' Digraph);
          dot = (if \<not> has_autocorrelation W then set_attr ''layout'' ''circo'' dot else dot);
          dot = add_nodes var_names dot
      in case np_max W_norm of
           Inl e \<Rightarrow> Inl e
         | Inr m \<Rightarrow>
             (case add_edges W_norm var_names (np_where_ge W_norm (threshold * m)) dot of
                Inl e \<Rightarrow> Inl e
              | Inr dot \<Rightarrow>
                  Inr (dot, (case dst of None \<Rightarrow> None | Some d \<Rightarrow> Some (filename, d)))))"

text \<open>The edge statements of a graph, in order.\<close>

fun is_edge :: "stmt \<Rightarrow> bool" where
  "is_edge (Edge _ _ _ _) = True"
| "is_edge (Node _ _) = False"

definition edges :: "digraph \<Rightarrow> stmt list" where
  "edges dot = filter is_edge (body dot)"

section \<open>The heatmap\<close>

text \<open>
  \<^verbatim>\<open>np.linalg.norm(W, ord=ord, axis=2)\<close> for a norm order that is a natural number:
  order 0 counts the non-zero entries, order 2 is the Euclidean norm, and any other order
  \<open>n\<close> gives the \<open>n\<close>-th root of the sum of the \<open>n\<close>-th powers of the absolute values.
  Infinite, negative and fractional orders are not covered by this type.
\<close>

definition vector_norm :: "nat \<Rightarrow> real list \<Rightarrow> real" where
  "vector_norm ord v =
     (if ord = 0 then real (length (filter (\<lambda>x. x \<noteq> 0) v))
      else if ord = 2 then l2_norm v
      else root ord (sum_list (map (\<lambda>x. \<bar>x\<bar> ^ ord) v)))"

definition norm_axis2 :: "nat \<Rightarrow> tensor \<Rightarrow> matrix" where
  "norm_axis2 ord W = map (map (vector_norm ord)) W"

text \<open>
  What a call does to the plotting state, the console and the disk is recorded as the
  list of the library calls it completed, in order. A run is that list together with
  the exception that ended it, if one did.
\<close>

datatype ticklabel = Name string | Lag nat

datatype event =
    Print string
  | Figure nat nat
  | Imshow matrix string
  | Xlabel string nat
  | Xticks "nat list" "ticklabel list"
  | Ylabel string nat
  | Yticks "nat list" "ticklabel list"
  | XaxisLabelTop
  | XaxisTickTop
  | Clim real "real option"
  | Pause
  | Mkdir string
  | Savefig string

type_synonym run = "event list \<times> error option"

definition ok :: "event list \<Rightarrow> run" where
  "ok es = (es, None)"

definition fail :: "error \<Rightarrow> run" where
  "fail e = ([], Some e)"

fun then_run :: "run \<Rightarrow> run \<Rightarrow> run" where
  "then_run (es, Some e) r = (es, Some e)"
| "then_run (es, None) (es', r) = (es @ es', r)"

definition steps :: "run list \<Rightarrow> run" where
  "steps rs = foldr then_run rs ([], None)"

text \<open>
  \<^verbatim>\<open>plt.xticks(locs, labels)\<close> and \<^verbatim>\<open>plt.yticks(locs, labels)\<close>. The plotting library
  is not part of the repository, and its releases differ on labels whose number is not the
  number of tick positions: recent ones raise ValueError unless the label list is empty,
  the ones current when the module was written accept them. The flag \<open>strict\<close> says which
  library the call runs on.
\<close>

definition plt_xticks :: "bool \<Rightarrow> nat list \<Rightarrow> ticklabel list \<Rightarrow> run" where
  "plt_xticks strict locs labels =
     (if strict \<and> labels \<noteq> [] \<and> length locs \<noteq> length labels then fail ValueError
      else ok [Xticks locs labels])"

definition plt_yticks :: "bool \<Rightarrow> nat list \<Rightarrow> ticklabel list \<Rightarrow> run" where
  "plt_yticks strict locs labels =
     (if strict \<and> labels \<noteq> [] \<and> length locs \<noteq> length labels then fail ValueError
      else ok [Yticks locs labels])"

text \<open>
  The assignments \<^verbatim>\<open>_W_norm[idx] = v\<close> through an index tuple of \<^verbatim>\<open>np.where\<close>.
\<close>

fun assign :: "matrix \<Rightarrow> (nat \<times> nat) list \<Rightarrow> real \<Rightarrow> matrix" where
  "assign M [] v = M"
| "assign M ((i, j) # rest) v = assign (M[i := (M ! i)[j := v]]) rest v"

text \<open>\<^verbatim>\<open>row.T\<close> for a row of shape \<open>(p, K)\<close>.\<close>

definition np_transpose :: "nat \<Rightarrow> matrix \<Rightarrow> matrix" where
  "np_transpose K row = map (\<lambda>k. map (\<lambda>v. v ! k) row) [0..<K]"

text \<open>
  The block that writes the image of the joint modes:
  \<^verbatim>\<open>
  if dst is not None:
      assert dst[-1] == '/'
      Path(dst).mkdir(exist_ok=True, parents=True)
      plt.savefig(dst + file_header + '_overall.' + ext, bbox_inches='tight')
  \<close>
  \<^verbatim>\<open>dst[-1]\<close> raises IndexError on the empty string, and \<^verbatim>\<open>dst + file_header\<close> raises
  TypeError when \<^verbatim>\<open>file_header\<close> is left at its default \<^verbatim>\<open>None\<close>.
\<close>

definition save_overall :: "string option \<Rightarrow> string option \<Rightarrow> string \<Rightarrow> run" where
  "save_overall dst file_header ext =
     (case dst of
        None \<Rightarrow> ok []
      | Some d \<Rightarrow>
          if d = [] then fail IndexError
          else if last d \<noteq> CHR ''/'' then fail (AssertionError DstSlashCheck)
          else then_run (ok [Mkdir d])
                 (case file_header of
                    None \<Rightarrow> fail TypeError
                  | Some h \<Rightarrow> ok [Savefig (d @ h @ ''_overall.'' @ ext)]))"

text \<open>
  The same block of the mode \<^verbatim>\<open>'ind'\<close>, where the name is built by
  \<^verbatim>\<open>'{}{}_{}.{}'.format(dst, file_header, var, ext)\<close>, which prints \<^verbatim>\<open>None\<close> as a word.
\<close>

definition save_ind :: "string option \<Rightarrow> string option \<Rightarrow> string \<Rightarrow> string \<Rightarrow> run" where
  "save_ind dst file_header var ext =
     (case dst of
        None \<Rightarrow> ok []
      | Some d \<Rightarrow>
          if d = [] then fail IndexError
          else if last d \<noteq> CHR ''/'' then fail (AssertionError DstSlashCheck)
          else ok [Mkdir d,
                   Savefig (d @ (case file_header of None \<Rightarrow> ''None'' | Some h \<Rightarrow> h)
                              @ ''_'' @ var @ ''.'' @ ext)])"

text \<open>The plot shared by the modes \<^verbatim>\<open>'joint'\<close> and \<^verbatim>\<open>'joint_threshold'\<close>.\<close>

definition joint_plot ::
  "bool \<Rightarrow> nat \<Rightarrow> matrix \<Rightarrow> string list \<Rightarrow> string option \<Rightarrow> string option \<Rightarrow> string \<Rightarrow> run" where
  "joint_plot strict p M var_names dst file_header ext =
     steps
       [ok [Figure p p],
        ok [Imshow M ''Greys''],
        ok [Xlabel (''Cause'' @ [CHR 0x0A]) 16],
        plt_xticks strict [0..<p] (map Name var_names),
        ok [Ylabel ''Response'' 16],
        plt_yticks strict [0..<p] (map Name var_names),
        ok [XaxisLabelTop, XaxisTickTop],
        ok [Clim 0 None],
        ok [Pause],
        save_overall dst file_header ext]"

text \<open>The loop \<^verbatim>\<open>for (var, row) in zip(var_names, W)\<close> of the mode \<^verbatim>\<open>'ind'\<close>.\<close>

fun ind_plots ::
  "bool \<Rightarrow> nat \<Rightarrow> nat \<Rightarrow> matrix \<Rightarrow> string list \<Rightarrow> string option \<Rightarrow> string option \<Rightarrow> string
     \<Rightarrow> (string \<times> matrix) list \<Rightarrow> run" where
  "ind_plots strict p K W_norm var_names dst file_header ext [] = ok []"
| "ind_plots strict p K W_norm var_names dst file_header ext ((var, row) # rest) =
     then_run
       (steps
          [ok [Figure K p],
           ok [Imshow (np_transpose K row) ''Greys''],
           ok [Xlabel (''Causes to '' @ var @ [CHR 0x0A]) 16],
           plt_xticks strict [0..<p] (map Name var_names),
           ok [Ylabel ''Time Lag'' 16],
           plt_yticks strict [0..<K] (map Lag [1..<K + 1]),
           ok [XaxisLabelTop, XaxisTickTop],
           (case np_max W_norm of Inl e \<Rightarrow> fail e | Inr m \<Rightarrow> ok [Clim 0 (Some m)]),
           save_ind dst file_header var ext,
           ok [Print []],
           ok [Pause]])
       (ind_plots strict p K W_norm var_names dst file_header ext rest)"

text \<open>
  \<^verbatim>\<open>causal_heatmap(W, var_names, mode, ord=2, threshold=0.1, dst=None, file_header=None,
  ext='png')\<close>. \<^verbatim>\<open>p, K = W[0].shape\<close> raises IndexError on a tensor with no row; the
  nested lists keep no lag count for a tensor with no column, where \<open>K\<close> is read as 0.
\<close>

definition causal_heatmap ::
  "bool \<Rightarrow> tensor \<Rightarrow> string list \<Rightarrow> string \<Rightarrow> nat \<Rightarrow> real \<Rightarrow> string option \<Rightarrow> string option
     \<Rightarrow> string \<Rightarrow> run" where
  "causal_heatmap strict W var_names mode ord threshold dst file_header ext =
     (if mode \<notin> set [''joint'', ''ind'', ''joint_threshold'']
      then fail (AssertionError ModeCheck)
      else
        (case W of
           [] \<Rightarrow> fail IndexError
         | W0 # _ \<Rightarrow>
             (let p = length W0;
                  K = (case W0 of [] \<Rightarrow> 0 | v # _ \<Rightarrow> length v);
                  W_norm = norm_axis2 ord W;
                  autocorrelation_setting = has_autocorrelation W
              in then_run
                   (ok [Print (''Autocorrelation during analysis: '' @
                          (if autocorrelation_setting then ''True'' else ''False''))])
                   (if mode = ''joint'' then
                      joint_plot strict p W_norm var_names dst file_header ext
                    else if mode = ''joint_threshold'' then
                      (case np_max W_norm of
                         Inl e \<Rightarrow> fail e
                       | Inr m \<Rightarrow>
                           (let idx_above = np_where_ge W_norm (threshold * m);
                                idx_below = np_where_lt W_norm (threshold * m);
                                W_norm = assign W_norm idx_above 1;
                                W_norm = assign W_norm idx_below 0
                            in joint_plot strict p W_norm var_names dst file_header ext))
                    else
                      ind_plots strict p K W_norm var_names dst file_header ext
                        (zip var_names W)))))"

text \<open>The matrices handed to \<^verbatim>\<open>plt.imshow\<close> during a run, in order.\<close>

fun shown :: "event \<Rightarrow> matrix list" where
  "shown (Imshow M _) = [M]"
| "shown _ = []"

definition images :: "run \<Rightarrow> matrix list" where
  "images r = concat (map shown (fst r))"

section \<open>The result store\<close>

text \<open>
  An array is numeric (its shape and its elements, whose type \<open>'e\<close> is left open: they
  are stored and read back, never computed with), or the zero-dimensional object array
  into which \<^verbatim>\<open>np.savez\<close> wraps a value that is not an array, here the dictionary
  \<^verbatim>\<open>hparams\<close> of type \<open>'h\<close>. An archive is the list of its named fields; the disk maps a
  path to the archive stored there. Directories and failures of the disk itself are not
  represented: \<^verbatim>\<open>Path(dst).mkdir(exist_ok=True, parents=True)\<close> leaves the stored
  archives as they are.
\<close>

datatype ('e, 'h) ndarray = NumArray "nat list" "'e list" | ObjArray 'h

datatype ('e, 'h) pyval = PArray "('e, 'h) ndarray" | PScalar 'e | PObject 'h

type_synonym ('e, 'h) npz = "(string \<times> ('e, 'h) ndarray) list"

type_synonym ('e, 'h) disk = "string \<rightharpoonup> ('e, 'h) npz"

text \<open>\<^verbatim>\<open>np.savez(file, **kwds)\<close> appends \<^verbatim>\<open>.npz\<close> to a name that does not end with it.\<close>

definition ends_with_npz :: "string \<Rightarrow> bool" where
  "ends_with_npz s = (4 \<le> length s \<and> drop (length s - 4) s = ''.npz'')"

definition np_savez :: "('e, 'h) disk \<Rightarrow> string \<Rightarrow> ('e, 'h) npz \<Rightarrow> ('e, 'h) disk" where
  "np_savez fs file kwds = fs((if ends_with_npz file then file else file @ ''.npz'') \<mapsto> kwds)"

definition np_load :: "('e, 'h) disk \<Rightarrow> string \<Rightarrow> error + ('e, 'h) npz" where
  "np_load fs file = (case fs file of None \<Rightarrow> Inl (FileNotFoundError file) | Some a \<Rightarrow> Inr a)"

text \<open>
  \<^verbatim>\<open>file[key]\<close> on a loaded archive: KeyError for a missing field, and ValueError for an
  object array when pickled data is not allowed. \<open>allow_pickle\<close> is the default of
  \<^verbatim>\<open>np.load\<close> in the NumPy the call runs on: \<^verbatim>\<open>load_results\<close> does not pass the argument.
\<close>

definition npz_getitem :: "bool \<Rightarrow> ('e, 'h) npz \<Rightarrow> string \<Rightarrow> error + ('e, 'h) ndarray" where
  "npz_getitem allow_pickle file key =
     (case map_of file key of
        None \<Rightarrow> Inl (KeyError key)
      | Some (ObjArray h) \<Rightarrow> if allow_pickle then Inr (ObjArray h) else Inl ValueError
      | Some (NumArray sh xs) \<Rightarrow> Inr (NumArray sh xs))"

text \<open>\<^verbatim>\<open>ndarray.item()\<close>: the one element of the array, ValueError when there is not just one.\<close>

definition item :: "('e, 'h) ndarray \<Rightarrow> error + ('e, 'h) pyval" where
  "item a =
     (case a of
        ObjArray h \<Rightarrow> Inr (PObject h)
      | NumArray sh xs \<Rightarrow> (case xs of [x] \<Rightarrow> Inr (PScalar x) | _ \<Rightarrow> Inl ValueError))"

text \<open>
  \<^verbatim>\<open>
  def save_results(filename, dst, W, hparams, W_submod=None):
      Path(dst).mkdir(exist_ok=True, parents=True)
      if W_submod is None:
          np.savez('{}/{}.npz'.format(dst, filename), W=W, hparams=hparams)
      else:
          np.savez('{}/{}.npz'.format(dst, filename), W=W, W_submod=W_submod, hparams=hparams)
  \<close>
\<close>

definition save_results ::
  "('e, 'h) disk \<Rightarrow> string \<Rightarrow> string \<Rightarrow> ('e, 'h) ndarray \<Rightarrow> 'h \<Rightarrow> ('e, 'h) ndarray option
     \<Rightarrow> ('e, 'h) disk" where
  "save_results fs filename dst W hparams W_submod =
     (case W_submod of
        None \<Rightarrow>
          np_savez fs (dst @ ''/'' @ filename @ ''.npz'')
            [(''W'', W), (''hparams'', ObjArray hparams)]
      | Some Ws \<Rightarrow>
          np_savez fs (dst @ ''/'' @ filename @ ''.npz'')
            [(''W'', W), (''W_submod'', Ws), (''hparams'', ObjArray hparams)])"

text \<open>
  \<^verbatim>\<open>
  def load_results(src):
      file = np.load('{}.npz'.format(src))
      W = file['W']
      hparams = file['hparams'].item()
      if 'W_submod' in file.keys():
          W_submod = file['W_submod']
          return W, W_submod, hparams
      return W, hparams
  \<close>
  The returned tuple is the list of its components.
\<close>

definition load_results ::
  "bool \<Rightarrow> ('e, 'h) disk \<Rightarrow> string \<Rightarrow> error + ('e, 'h) pyval list" where
  "load_results allow_pickle fs src =
     (case np_load fs (src @ ''.npz'') of
        Inl e \<Rightarrow> Inl e
      | Inr file \<Rightarrow>
          (case npz_getitem allow_pickle file ''W'' of
             Inl e \<Rightarrow> Inl e
           | Inr W \<Rightarrow>
               (case npz_getitem allow_pickle file ''hparams'' of
                  Inl e \<Rightarrow> Inl e
                | Inr h \<Rightarrow>
                    (case item h of
                       Inl e \<Rightarrow> Inl e
                     | Inr hparams \<Rightarrow>
                         if ''W_submod'' \<in> set (map fst file) then
                           (case npz_getitem allow_pickle file ''W_submod'' of
                              Inl e \<Rightarrow> Inl e
                            | Inr W_submod \<Rightarrow> Inr [PArray W, PArray W_submod, hparams])
                         else Inr [PArray W, hparams]))))"

section \<open>Properties of the detector\<close>

text \<open>On a square tensor the diagonal read by \<^verbatim>\<open>np.diag\<close> has one entry per variable.\<close>

lemma np_diag_square:
  assumes "tensor_shape p p K W"
  shows "np_diag (norm_last_axis W) = map (\<lambda>i. norm_last_axis W ! i ! i) [0..<p]"
proof (cases W)
  case Nil
  with assms show ?thesis by (simp add: np_diag_def norm_last_axis_def tensor_shape_def)
next
  case (Cons r rs)
  with assms have "length r = p" "length W = p"
    by (simp_all add: tensor_shape_def)
  with Cons show ?thesis
    by (simp add: np_diag_def norm_last_axis_def)
qed

text \<open>
  C2. For a square weight tensor the detector answers true exactly when some diagonal
  entry of the matrix of L2 norms over the lags is not zero.
\<close>

theorem has_autocorrelation_iff:
  assumes "tensor_shape p p K W"
  shows "has_autocorrelation W \<longleftrightarrow> (\<exists>i<p. norm_last_axis W ! i ! i \<noteq> 0)"
  unfolding has_autocorrelation_def np_diag_square [OF assms]
  by (auto simp: list_all_iff)

theorem has_autocorrelation_iff_witness:
  "tensor_shape 2 2 1 [[[0], [5]], [[0], [0]]]
   \<and> \<not> has_autocorrelation [[[0], [5]], [[0], [0]]]
   \<and> norm_last_axis [[[0], [5]], [[0], [0]]] ! 0 ! 0 = 0
   \<and> norm_last_axis [[[0], [5]], [[0], [0]]] ! 1 ! 1 = 0
   \<and> tensor_shape 1 1 1 [[[3]]]
   \<and> has_autocorrelation [[[3]]]"
proof -
  have h: "tensor_shape 2 2 1 [[[0], [5]], [[0], [0]]]" and h': "tensor_shape 1 1 1 [[[3]]]"
    by (simp_all add: tensor_shape_def)
  have "\<exists>i<1. norm_last_axis [[[3]]] ! i ! i \<noteq> 0"
    by (simp add: norm_last_axis_def l2_norm_def)
  then have a: "has_autocorrelation [[[3]]]"
    using has_autocorrelation_iff [OF h'] by simp
  have "norm_last_axis [[[0], [5]], [[0], [0]]] ! i ! i = 0" if "i < 2" for i
  proof -
    from that have "i = 0 \<or> i = 1" by auto
    then show ?thesis
      by (auto simp: norm_last_axis_def l2_norm_def)
  qed
  then have na: "\<not> has_autocorrelation [[[0], [5]], [[0], [0]]]"
    using has_autocorrelation_iff [OF h] by simp
  have "norm_last_axis [[[0], [5]], [[0], [0]]] ! 0 ! 0 = 0"
    "norm_last_axis [[[0], [5]], [[0], [0]]] ! 1 ! 1 = 0"
    by (simp_all add: norm_last_axis_def l2_norm_def)
  with h h' a na show ?thesis by blast
qed

section \<open>Properties of the causal graph\<close>

text \<open>
  On a rectangular matrix \<^verbatim>\<open>np.where\<close> selects, among all index pairs in row-major
  order, those whose cell passes the test.
\<close>

lemma np_where_ge_rect:
  assumes "length M = pe" "list_all (\<lambda>r. length r = pc) M"
  shows "np_where_ge M t = filter (\<lambda>(e, c). M ! e ! c \<ge> t) (List.product [0..<pe] [0..<pc])"
proof -
  have len: "\<And>i. i < pe \<Longrightarrow> length (M ! i) = pc"
    using assms by (simp add: list_all_length)
  have "np_where_ge M t =
      concat (map (\<lambda>i. map (\<lambda>j. (i, j)) (filter (\<lambda>j. M ! i ! j \<ge> t) [0..<pc])) [0..<pe])"
    unfolding np_where_ge_def assms(1)
    by (rule arg_cong [where f = concat], rule map_cong) (simp_all add: len)
  also have "\<dots> = filter (\<lambda>(e, c). M ! e ! c \<ge> t) (List.product [0..<pe] [0..<pc])"
    by (simp add: product_concat_map filter_concat filter_map comp_def)
  finally show ?thesis .
qed

text \<open>The two loops of \<^verbatim>\<open>causal_graph\<close> append one statement per element.\<close>

lemma add_nodes_eq:
  "add_nodes vars dot = dot\<lparr>body := body dot @ map (\<lambda>v. Node v v) vars\<rparr>"
  by (induction vars arbitrary: dot) (simp_all add: add_stmt_def)

lemma add_edges_ok:
  assumes "np_max N = Inr m" "\<forall>(e, c) \<in> set ps. e < length var_names \<and> c < length var_names"
  shows "add_edges N var_names ps dot =
     Inr (dot\<lparr>body := body dot @
        map (\<lambda>(e, c). Edge (var_names ! c) (var_names ! e) (np_scale 5 (np_divide (N ! e ! c) m)) ''1'') ps\<rparr>)"
  using assms(2)
proof (induction ps arbitrary: dot)
  case Nil
  show ?case by simp
next
  case (Cons a ps)
  obtain e c where a: "a = (e, c)" by (cases a)
  from Cons.prems a have "e < length var_names" "c < length var_names" by auto
  moreover from Cons.prems have "\<forall>(e, c) \<in> set ps. e < length var_names \<and> c < length var_names"
    by simp
  ultimately show ?case
    using Cons.IH assms(1) by (simp add: a py_index_def add_stmt_def)
qed

text \<open>
  \<^verbatim>\<open>np.max\<close> returns a bound of every cell, and returns a value whenever the matrix has a
  cell; its only exception is ValueError.
\<close>

lemma fold_max_ge: "(x::real) \<le> fold max xs x"
  by (induction xs arbitrary: x) (auto intro: order_trans [OF max.cobounded2])

lemma fold_max_upper: "y \<in> set xs \<Longrightarrow> (y::real) \<le> fold max xs x"
proof (induction xs arbitrary: x)
  case Nil
  then show ?case by simp
next
  case (Cons a xs)
  then show ?case
    by (auto intro: order_trans [OF max.cobounded1 fold_max_ge])
qed

lemma np_max_upper:
  assumes "np_max M = Inr m" "i < length M" "j < length (M ! i)"
  shows "M ! i ! j \<le> m"
proof -
  have mem: "M ! i ! j \<in> set (concat M)"
    using assms(2,3) by (auto intro!: bexI [of _ "M ! i"])
  show ?thesis
  proof (cases "concat M")
    case Nil
    with mem show ?thesis by simp
  next
    case (Cons x xs)
    with assms(1) have m: "m = fold max xs x" by (simp add: np_max_def)
    from mem Cons have "M ! i ! j = x \<or> M ! i ! j \<in> set xs" by simp
    then show ?thesis
      using fold_max_ge [of x xs] fold_max_upper [of "M ! i ! j" xs x] m by auto
  qed
qed

lemma np_max_some:
  assumes "length M = pe" "list_all (\<lambda>r. length r = pc) M" "0 < pe" "0 < pc"
  shows "\<exists>m. np_max M = Inr m"
proof -
  from assms obtain r rs where M: "M = r # rs" by (cases M) auto
  with assms have "r \<noteq> []" by auto
  then obtain x xs where "r = x # xs" by (cases r) auto
  with M show ?thesis by (simp add: np_max_def)
qed


text \<open>The graph returned for a square tensor with as many names as variables.\<close>

lemma norm_shape:
  assumes "tensor_shape pe pc K W"
  shows "length (norm_last_axis W) = pe" "list_all (\<lambda>r. length r = pc) (norm_last_axis W)"
  using assms by (auto simp: tensor_shape_def norm_last_axis_def list_all_iff)

lemma causal_graph_result:
  assumes "tensor_shape p p K W" "length var_names = p" "np_max (norm_last_axis W) = Inr m"
  shows "causal_graph W var_names threshold use_circo_layout dst filename =
     Inr (\<lparr>graph_attr =
             (if has_autocorrelation W then [''margin'' \<mapsto> ''0'', ''rankdir'' \<mapsto> ''LR'']
              else [''margin'' \<mapsto> ''0'', ''rankdir'' \<mapsto> ''LR'', ''layout'' \<mapsto> ''circo'']),
           body = map (\<lambda>v. Node v v) var_names @
             map (\<lambda>(e, c). Edge (var_names ! c) (var_names ! e)
                    (np_scale 5 (np_divide (norm_last_axis W ! e ! c) m)) ''1'')
               (filter (\<lambda>(e, c). norm_last_axis W ! e ! c \<ge> threshold * m)
                  (List.product [0..<p] [0..<p]))\<rparr>,
          (case dst of None \<Rightarrow> None | Some d \<Rightarrow> Some (filename, d)))"
proof -
  let ?N = "norm_last_axis W"
  have sel: "np_where_ge ?N (threshold * m) =
      filter (\<lambda>(e, c). ?N ! e ! c \<ge> threshold * m) (List.product [0..<p] [0..<p])"
    by (rule np_where_ge_rect [OF norm_shape [OF assms(1)]])
  have inb: "\<forall>(e, c) \<in> set (filter (\<lambda>(e, c). ?N ! e ! c \<ge> threshold * m)
        (List.product [0..<p] [0..<p])). e < length var_names \<and> c < length var_names"
    using assms(2) by auto
  show ?thesis
    unfolding causal_graph_def Let_def
    by (simp add: assms(3) sel add_edges_ok [OF assms(3) inb] add_nodes_eq set_attr_def
        Digraph_def)
qed

lemma edges_append_nodes:
  "filter is_edge (map (\<lambda>v. Node v v) vs @ map (\<lambda>(e, c). Edge (f e c) (g e c) (h e c) (k e c)) ps)
     = map (\<lambda>(e, c). Edge (f e c) (g e c) (h e c) (k e c)) ps"
  by (induction vs) (simp_all add: filter_map comp_def case_prod_beta)

lemma l2_norm_single: "l2_norm [x] = \<bar>x\<bar>"
  by (simp add: l2_norm_def)



text \<open>
  C5. For a square, non-empty tensor with one name per variable, \<^verbatim>\<open>causal_graph\<close> returns
  a graph whose flow direction is left to right; when the tensor shows no autocorrelation
  and \<^verbatim>\<open>use_circo_layout\<close> is \<^verbatim>\<open>None\<close> the layout attribute is \<^verbatim>\<open>circo\<close>, and when the
  tensor shows autocorrelation no layout attribute is set, whatever the argument.
\<close>

theorem causal_graph_layout:
  assumes "tensor_shape p p K W" "0 < p" "length var_names = p"
  shows "(\<not> has_autocorrelation W \<longrightarrow>
           (\<exists>dot r. causal_graph W var_names threshold None dst filename = Inr (dot, r)
              \<and> graph_attr dot ''rankdir'' = Some ''LR''
              \<and> graph_attr dot ''layout'' = Some ''circo''))
       \<and> (has_autocorrelation W \<longrightarrow>
           (\<exists>dot r. causal_graph W var_names threshold use_circo_layout dst filename = Inr (dot, r)
              \<and> graph_attr dot ''rankdir'' = Some ''LR''
              \<and> graph_attr dot ''layout'' = None))"
proof -
  obtain m where m: "np_max (norm_last_axis W) = Inr m"
    using np_max_some [OF norm_shape [OF assms(1)] assms(2) assms(2)] by blast
  show ?thesis
    by (simp add: causal_graph_result [OF assms(1,3) m])
qed

theorem causal_graph_layout_witness:
  "tensor_shape 2 2 1 [[[0], [5]], [[0], [0]]]
   \<and> \<not> has_autocorrelation [[[0], [5]], [[0], [0]]]
   \<and> (\<exists>dot r. causal_graph [[[0], [5]], [[0], [0]]] [''A'', ''B''] (1 / 10) None None ''graph''
          = Inr (dot, r)
        \<and> graph_attr dot ''layout'' = Some ''circo'')
   \<and> tensor_shape 1 1 1 [[[3]]]
   \<and> has_autocorrelation [[[3]]]
   \<and> (\<exists>dot r. causal_graph [[[3]]] [''A''] (1 / 10) (Some True) None ''graph'' = Inr (dot, r)
        \<and> graph_attr dot ''layout'' = None)"
proof -
  let ?W = "[[[0], [5]], [[0], [0]]] :: tensor"
  have sh: "tensor_shape 2 2 1 ?W" and sh': "tensor_shape 1 1 1 [[[3]]]"
    by (simp_all add: tensor_shape_def)
  have na: "\<not> has_autocorrelation ?W"
    by (simp add: has_autocorrelation_def np_diag_def norm_last_axis_def l2_norm_single
        upt_rec [of 0] upt_rec [of 1])
  have a: "has_autocorrelation [[[3]]]"
    by (simp add: has_autocorrelation_def np_diag_def norm_last_axis_def l2_norm_single)
  from causal_graph_layout [OF sh, of "[''A'', ''B'']" "1 / 10" None "''graph''" None]
    causal_graph_layout [OF sh', of "[''A'']" "1 / 10" None "''graph''" "Some True"]
    sh sh' na a
  show ?thesis
    by auto
qed

text \<open>
  C9. The result of \<^verbatim>\<open>causal_graph\<close> does not depend on \<^verbatim>\<open>use_circo_layout\<close>: two calls
  that differ in that argument only return the same graph, or raise the same exception.
\<close>

theorem causal_graph_ignores_use_circo_layout:
  "causal_graph W var_names threshold u1 dst filename =
   causal_graph W var_names threshold u2 dst filename"
  by (simp add: causal_graph_def)

section \<open>Properties of the result store\<close>

text \<open>The archive that \<^verbatim>\<open>save_results\<close> leaves at \<^verbatim>\<open>dst/filename.npz\<close>.\<close>

lemma ends_with_npz_append: "ends_with_npz (s @ ''.npz'')"
  by (simp add: ends_with_npz_def)

lemma npz_getitem_pickle:
  "npz_getitem True file key = (case map_of file key of None \<Rightarrow> Inl (KeyError key) | Some a \<Rightarrow> Inr a)"
  by (simp add: npz_getitem_def split: option.splits ndarray.splits)

lemma saved_path:
  "save_results fs filename dst W hparams W_submod ((dst @ ''/'' @ filename) @ ''.npz'') =
     Some (case W_submod of
             None \<Rightarrow> [(''W'', W), (''hparams'', ObjArray hparams)]
           | Some Ws \<Rightarrow> [(''W'', W), (''W_submod'', Ws), (''hparams'', ObjArray hparams)])"
  using ends_with_npz_append [of "dst @ ''/'' @ filename"]
  by (simp add: save_results_def np_savez_def split: option.splits)


text \<open>
  On a NumPy whose \<^verbatim>\<open>np.load\<close> refuses object arrays by default, reading the field
  \<^verbatim>\<open>hparams\<close> back raises ValueError: the dictionary was stored as an object array.
\<close>

lemma load_results_without_pickle:
  "load_results False (save_results fs filename dst (NumArray sh xs) hparams W_submod)
     (dst @ ''/'' @ filename) = Inl ValueError"
  unfolding load_results_def np_load_def saved_path
  by (simp add: npz_getitem_def split: option.splits)

text \<open>
  C10. For an archive with the fields \<^verbatim>\<open>W\<close> and \<^verbatim>\<open>hparams\<close>, \<^verbatim>\<open>load_results\<close> returns
  \<open>(W, W_submod, hparams)\<close>, the mapping last, when the archive has the field
  \<^verbatim>\<open>W_submod\<close>, and \<open>(W, hparams)\<close> when it has not.
\<close>

theorem load_results_order:
  assumes "fs (src @ ''.npz'') = Some file" "map_of file ''W'' = Some W"
    and "map_of file ''hparams'' = Some (ObjArray h)"
  shows "(\<forall>Ws. map_of file ''W_submod'' = Some Ws \<longrightarrow>
            load_results True fs src = Inr [PArray W, PArray Ws, PObject h])
       \<and> (map_of file ''W_submod'' = None \<longrightarrow>
            load_results True fs src = Inr [PArray W, PObject h])"
proof (cases "map_of file ''W_submod''")
  case None
  then have "''W_submod'' \<notin> fst ` set file"
    by (simp add: map_of_eq_None_iff)
  with None show ?thesis
    by (simp add: load_results_def np_load_def assms npz_getitem_pickle item_def)
next
  case (Some Ws)
  then have "''W_submod'' \<in> fst ` set file"
    by (metis map_of_eq_None_iff option.distinct(1))
  with Some show ?thesis
    by (simp add: load_results_def np_load_def assms npz_getitem_pickle item_def)
qed

theorem load_results_order_witness:
  "load_results True
      [''out/run.npz'' \<mapsto> [(''W'', NumArray [1] [7 :: int]), (''W_submod'', NumArray [1] [8]),
         (''hparams'', ObjArray (''lr=1''))]] ''out/run''
     = Inr [PArray (NumArray [1] [7]), PArray (NumArray [1] [8]), PObject ''lr=1'']
   \<and> load_results True
      [''out/run.npz'' \<mapsto> [(''W'', NumArray [1] [7 :: int]), (''hparams'', ObjArray (''lr=1''))]]
      ''out/run''
     = Inr [PArray (NumArray [1] [7]), PObject ''lr=1'']"
proof -
  let ?a3 = "[(''W'', NumArray [1] [7 :: int]), (''W_submod'', NumArray [1] [8]),
         (''hparams'', ObjArray (''lr=1''))]"
  let ?a2 = "[(''W'', NumArray [1] [7 :: int]), (''hparams'', ObjArray (''lr=1''))]"
  have "load_results True [''out/run.npz'' \<mapsto> ?a3] ''out/run''
     = Inr [PArray (NumArray [1] [7]), PArray (NumArray [1] [8]), PObject ''lr=1'']"
    using load_results_order [of "[''out/run.npz'' \<mapsto> ?a3]" "''out/run''" ?a3
        "NumArray [1] [7]" "''lr=1''"]
    by simp
  moreover have "load_results True [''out/run.npz'' \<mapsto> ?a2] ''out/run''
     = Inr [PArray (NumArray [1] [7]), PObject ''lr=1'']"
    using load_results_order [of "[''out/run.npz'' \<mapsto> ?a2]" "''out/run''" ?a2
        "NumArray [1] [7]" "''lr=1''"]
    by simp
  ultimately show ?thesis by blast
qed

section \<open>Properties of the heatmap\<close>

text \<open>
  An assignment through an index list keeps the shape and changes the listed cells only;
  the two assignments of the mode \<^verbatim>\<open>'joint_threshold'\<close> together binarise the matrix.
\<close>

lemma length_assign: "length (assign M idxs v) = length M"
  by (induction M idxs v rule: assign.induct) simp_all

lemma length_assign_row: "length (assign M idxs v ! i) = length (M ! i)"
proof (induction M idxs v rule: assign.induct)
  case (1 M v)
  show ?case by simp
next
  case (2 M a b rest v)
  then show ?case
    by (cases "a < length M"; cases "i = a") (simp_all add: not_less list_update_beyond)
qed

lemma assign_nth:
  assumes "i < length M" "j < length (M ! i)"
  shows "assign M idxs v ! i ! j = (if (i, j) \<in> set idxs then v else M ! i ! j)"
  using assms
proof (induction M idxs v rule: assign.induct)
  case (1 M v)
  show ?case by simp
next
  case (2 M a b rest v)
  let ?M' = "M[a := (M ! a)[b := v]]"
  have len: "i < length ?M'" "j < length (?M' ! i)"
    using "2.prems" by (cases "i = a"; simp)+
  have cell: "?M' ! i ! j = (if (i, j) = (a, b) then v else M ! i ! j)"
    using "2.prems" by (cases "i = a"; cases "j = b") simp_all
  show ?case
    using "2.IH" [OF len] cell by auto
qed

lemma np_where_ge_iff:
  "(i, j) \<in> set (np_where_ge M t) \<longleftrightarrow> i < length M \<and> j < length (M ! i) \<and> M ! i ! j \<ge> t"
  by (auto simp: np_where_ge_def)

lemma np_where_lt_iff:
  "(i, j) \<in> set (np_where_lt M t) \<longleftrightarrow> i < length M \<and> j < length (M ! i) \<and> M ! i ! j < t"
  by (auto simp: np_where_lt_def)

lemma threshold_assign:
  "assign (assign M (np_where_ge M t) 1) (np_where_lt M t) 0
     = map (map (\<lambda>x. if x \<ge> t then 1 else 0)) M"
proof (rule nth_equalityI)
  show "length (assign (assign M (np_where_ge M t) 1) (np_where_lt M t) 0)
      = length (map (map (\<lambda>x. if x \<ge> t then 1 else 0)) M)"
    by (simp add: length_assign)
next
  fix i
  assume "i < length (assign (assign M (np_where_ge M t) 1) (np_where_lt M t) 0)"
  then have i: "i < length M" by (simp add: length_assign)
  show "assign (assign M (np_where_ge M t) 1) (np_where_lt M t) 0 ! i
      = map (map (\<lambda>x. if x \<ge> t then 1 else 0)) M ! i"
  proof (rule nth_equalityI)
    show "length (assign (assign M (np_where_ge M t) 1) (np_where_lt M t) 0 ! i)
        = length (map (map (\<lambda>x. if x \<ge> t then 1 else 0)) M ! i)"
      using i by (simp add: length_assign_row)
  next
    fix j
    assume "j < length (assign (assign M (np_where_ge M t) 1) (np_where_lt M t) 0 ! i)"
    then have j: "j < length (M ! i)" by (simp add: length_assign_row)
    have i': "i < length (assign M (np_where_ge M t) 1)"
      and j': "j < length (assign M (np_where_ge M t) 1 ! i)"
      using i j by (simp_all add: length_assign length_assign_row)
    show "assign (assign M (np_where_ge M t) 1) (np_where_lt M t) 0 ! i ! j
        = map (map (\<lambda>x. if x \<ge> t then 1 else 0)) M ! i ! j"
      using i j
      by (simp add: assign_nth [OF i' j'] assign_nth [OF i j] np_where_ge_iff np_where_lt_iff)
  qed
qed

text \<open>Sequencing of runs, and what the joint plot shows and raises.\<close>

lemma then_run_ok: "then_run (ok es) r = (es @ fst r, snd r)"
  by (cases r) (simp add: ok_def)

lemma then_run_fail: "then_run (fail e) r = fail e"
  by (simp add: fail_def)

lemma images_joint_plot: "images (joint_plot strict p M var_names dst file_header ext) = [M]"
  by (simp add: joint_plot_def steps_def then_run_ok then_run_fail images_def
      plt_xticks_def plt_yticks_def save_overall_def ok_def fail_def
      split: option.splits)

lemma snd_joint_plot:
  "snd (joint_plot strict p M var_names None file_header ext)
     = (if strict \<and> var_names \<noteq> [] \<and> p \<noteq> length var_names then Some ValueError else None)"
  by (simp add: joint_plot_def steps_def then_run_ok then_run_fail
      plt_xticks_def plt_yticks_def save_overall_def ok_def fail_def)


lemma norm_axis2_shape:
  assumes "tensor_shape pe pc K W"
  shows "length (norm_axis2 ord W) = pe" "list_all (\<lambda>r. length r = pc) (norm_axis2 ord W)"
  using assms by (auto simp: tensor_shape_def norm_axis2_def list_all_iff)

lemma heatmap_joint_threshold:
  assumes "np_max (norm_axis2 ord (W0 # Ws)) = Inr m"
  shows "causal_heatmap strict (W0 # Ws) var_names ''joint_threshold'' ord threshold dst
       file_header ext =
     then_run
       (ok [Print (''Autocorrelation during analysis: '' @
              (if has_autocorrelation (W0 # Ws) then ''True'' else ''False''))])
       (joint_plot strict (length W0)
          (map (map (\<lambda>x. if x \<ge> threshold * m then 1 else 0)) (norm_axis2 ord (W0 # Ws)))
          var_names dst file_header ext)"
  unfolding causal_heatmap_def Let_def
  by (simp add: assms threshold_assign split del: if_split)

lemma images_then_run_ok: "images (then_run (ok es) r) = concat (map shown es) @ images r"
  by (simp add: then_run_ok images_def)

lemma snd_then_run_ok: "snd (then_run (ok es) r) = snd r"
  by (simp add: then_run_ok)



text \<open>The exception of a sequence is the first exception of its steps.\<close>

lemma snd_then_run: "snd (then_run a b) = (case snd a of Some e \<Rightarrow> Some e | None \<Rightarrow> snd b)"
  by (cases a; cases b; cases "snd a") auto

lemma steps_Nil: "steps [] = ([], None)"
  by (simp add: steps_def)

lemma snd_steps_Cons:
  "snd (steps (r # rs)) = (case snd r of Some e \<Rightarrow> Some e | None \<Rightarrow> snd (steps rs))"
  unfolding steps_def by (simp add: snd_then_run)

lemma np_max_error: "np_max M = Inl e \<Longrightarrow> e = ValueError"
  by (auto simp: np_max_def split: list.splits)

lemma joint_plot_no_mode_error:
  "snd (joint_plot strict p M var_names dst file_header ext) \<noteq> Some (AssertionError ModeCheck)"
  by (simp add: joint_plot_def snd_steps_Cons steps_Nil snd_then_run plt_xticks_def
      plt_yticks_def save_overall_def ok_def fail_def split: option.splits)

lemma ind_plots_no_mode_error:
  "snd (ind_plots strict p K N var_names dst file_header ext pairs)
     \<noteq> Some (AssertionError ModeCheck)"
proof (induction pairs)
  case Nil
  show ?case by (simp add: ok_def)
next
  case (Cons a pairs)
  obtain var row where a: "a = (var, row)" by (cases a)
  have "e = ValueError" if "np_max N = Inl e" for e
    using that by (rule np_max_error)
  with Cons show ?case
    by (auto simp: a snd_steps_Cons steps_Nil snd_then_run plt_xticks_def
        plt_yticks_def save_ind_def ok_def fail_def split: option.splits sum.splits)
qed

text \<open>
  C7. A mode that is none of \<^verbatim>\<open>'joint'\<close>, \<^verbatim>\<open>'ind'\<close>, \<^verbatim>\<open>'joint_threshold'\<close> ends the call
  with the assertion error of the mode check before any library call is made; a mode
  that is one of the three never ends with that error.
\<close>

theorem causal_heatmap_mode_check:
  "(mode \<notin> {''joint'', ''ind'', ''joint_threshold''} \<longrightarrow>
      causal_heatmap strict W var_names mode ord threshold dst file_header ext
        = ([], Some (AssertionError ModeCheck)))
   \<and> (mode \<in> {''joint'', ''ind'', ''joint_threshold''} \<longrightarrow>
      snd (causal_heatmap strict W var_names mode ord threshold dst file_header ext)
        \<noteq> Some (AssertionError ModeCheck))"
proof (intro conjI impI)
  assume "mode \<notin> {''joint'', ''ind'', ''joint_threshold''}"
  then show "causal_heatmap strict W var_names mode ord threshold dst file_header ext
        = ([], Some (AssertionError ModeCheck))"
    by (simp add: causal_heatmap_def fail_def)
next
  assume mode: "mode \<in> {''joint'', ''ind'', ''joint_threshold''}"
  have "e = ValueError" if "np_max (norm_axis2 ord W) = Inl e" for e
    using that by (rule np_max_error)
  with mode show "snd (causal_heatmap strict W var_names mode ord threshold dst file_header ext)
        \<noteq> Some (AssertionError ModeCheck)"
    unfolding causal_heatmap_def Let_def
    by (auto simp: snd_then_run_ok joint_plot_no_mode_error ind_plots_no_mode_error fail_def
        split: list.splits sum.splits)
qed

theorem causal_heatmap_mode_check_witness:
  "causal_heatmap True [[[1]]] [''A''] ''heat'' 2 (1 / 10) None None ''png''
     = ([], Some (AssertionError ModeCheck))
   \<and> snd (causal_heatmap True [[[1]]] [''A''] ''joint'' 2 (1 / 10) None None ''png'')
        \<noteq> Some (AssertionError ModeCheck)"
  using causal_heatmap_mode_check [of "''heat''" True "[[[1]]]" "[''A'']" 2 "1 / 10" None None "''png''"]
    causal_heatmap_mode_check [of "''joint''" True "[[[1]]]" "[''A'']" 2 "1 / 10" None None "''png''"]
  by simp


text \<open>
  With no output directory the loop of the mode \<^verbatim>\<open>'ind'\<close> can only fail in
  \<^verbatim>\<open>plt.xticks\<close>, in its first iteration.
\<close>

lemma snd_ind_plots:
  assumes "np_max N = Inr m"
  shows "snd (ind_plots strict p K N var_names None file_header ext pairs)
     = (if pairs \<noteq> [] \<and> strict \<and> var_names \<noteq> [] \<and> p \<noteq> length var_names
        then Some ValueError else None)"
proof (induction pairs)
  case Nil
  show ?case by (simp add: ok_def)
next
  case (Cons a pairs)
  obtain var row where a: "a = (var, row)" by (cases a)
  from Cons show ?case
    by (simp add: a assms snd_steps_Cons steps_Nil snd_then_run plt_xticks_def
        plt_yticks_def save_ind_def ok_def fail_def)
qed

text \<open>
  C8, as amended. \<^verbatim>\<open>causal_heatmap\<close> does not compare the number of names with the
  tensor. For a square, non-empty tensor, a valid mode and no output directory, a call
  whose number of names differs from the first dimension ends with an exception exactly
  when the names are not empty and the plotting library rejects tick labels of the wrong
  number: the ValueError of \<^verbatim>\<open>plt.xticks\<close>. With no name at all, or on a library that
  accepts such labels, the call ends without an exception.
\<close>

theorem heatmap_length_mismatch:
  assumes "tensor_shape p p K W" "0 < p"
    and "mode \<in> {''joint'', ''ind'', ''joint_threshold''}"
    and "length var_names \<noteq> p"
  shows "snd (causal_heatmap strict W var_names mode ord threshold None file_header ext)
     = (if strict \<and> var_names \<noteq> [] then Some ValueError else None)"
proof -
  obtain m where m: "np_max (norm_axis2 ord W) = Inr m"
    using np_max_some [OF norm_axis2_shape [OF assms(1)] assms(2) assms(2)] by blast
  from assms(1,2) obtain W0 Ws where W: "W = W0 # Ws"
    by (cases W) (auto simp: tensor_shape_def)
  with assms(1) have p: "length W0 = p"
    by (simp add: tensor_shape_def)
  have ne: "p \<noteq> length var_names"
    using assms(4) by simp
  consider "mode = ''joint''" | "mode = ''joint_threshold''" | "mode = ''ind''"
    using assms(3) by auto
  then show ?thesis
  proof cases
    case 1
    then show ?thesis
      unfolding W causal_heatmap_def Let_def
      by (simp add: snd_then_run_ok snd_joint_plot p ne split del: if_split)
  next
    case 2
    then show ?thesis
      using m unfolding W
      by (simp add: heatmap_joint_threshold snd_then_run_ok snd_joint_plot p ne
          split del: if_split)
  next
    case 3
    then show ?thesis
      using m unfolding W causal_heatmap_def Let_def
      by (auto simp: snd_then_run_ok snd_ind_plots p ne)
  qed
qed

theorem heatmap_length_mismatch_counterexample:
  "length ([] :: string list) \<noteq> length [[[1 :: real]]]
   \<and> causal_heatmap True [[[1]]] [] ''ind'' 2 (1 / 10) None None ''png''
       = ([Print ''Autocorrelation during analysis: True''], None)
   \<and> causal_heatmap True [[[1]]] [] ''joint'' 2 (1 / 10) None None ''png''
       = ([Print ''Autocorrelation during analysis: True'', Figure 1 1,
           Imshow [[1]] ''Greys'', Xlabel (''Cause'' @ [CHR 0x0A]) 16, Xticks [0] [],
           Ylabel ''Response'' 16, Yticks [0] [], XaxisLabelTop, XaxisTickTop,
           Clim 0 None, Pause], None)"
  by (simp add: causal_heatmap_def has_autocorrelation_def np_diag_def norm_last_axis_def
      l2_norm_single norm_axis2_def vector_norm_def ok_def fail_def joint_plot_def steps_def
      plt_xticks_def plt_yticks_def save_overall_def)

theorem heatmap_length_mismatch_witness:
  "tensor_shape 1 1 1 [[[1]]]
   \<and> snd (causal_heatmap True [[[1]]] [''A'', ''B''] ''joint'' 2 (1 / 10) None None ''png'')
       = Some ValueError
   \<and> snd (causal_heatmap False [[[1]]] [''A'', ''B''] ''joint'' 2 (1 / 10) None None ''png'')
       = None"
proof -
  have sh: "tensor_shape 1 1 1 [[[1]]]"
    by (simp add: tensor_shape_def)
  show ?thesis
    using sh heatmap_length_mismatch [OF sh, of "''joint''" "[''A'', ''B'']" True 2 "1 / 10" None "''png''"]
      heatmap_length_mismatch [OF sh, of "''joint''" "[''A'', ''B'']" False 2 "1 / 10" None "''png''"]
    by simp
qed


text \<open>The norms of an all-zero tensor are zero, and so is their maximum.\<close>

lemma l2_norm_zero: "list_all (\<lambda>x. x = 0) v \<Longrightarrow> l2_norm v = 0"
  by (induction v) (simp_all add: l2_norm_def)

lemma vector_norm_zero:
  assumes "list_all (\<lambda>x. x = 0) v"
  shows "vector_norm ord v = 0"
proof -
  have "filter (\<lambda>x. x \<noteq> 0) v = []"
    using assms by (induction v) simp_all
  moreover have "0 < ord \<Longrightarrow> sum_list (map (\<lambda>x. \<bar>x\<bar> ^ ord) v) = 0"
    using assms by (induction v) simp_all
  ultimately show ?thesis
    by (simp add: vector_norm_def l2_norm_zero [OF assms])
qed

lemma zero_norm_last_axis:
  assumes "list_all (list_all (list_all (\<lambda>x. x = 0))) W"
  shows "list_all (list_all (\<lambda>x. x = 0)) (norm_last_axis W)"
  using assms by (auto simp: norm_last_axis_def list_all_iff l2_norm_zero)

lemma zero_norm_axis2:
  assumes "list_all (list_all (list_all (\<lambda>x. x = 0))) W"
  shows "list_all (list_all (\<lambda>x. x = 0)) (norm_axis2 ord W)"
  using assms by (auto simp: norm_axis2_def list_all_iff vector_norm_zero)

lemma fold_max_zero: "list_all (\<lambda>x. x = 0) xs \<Longrightarrow> fold max xs (0 :: real) = 0"
  by (induction xs) simp_all

lemma np_max_zero:
  assumes "list_all (list_all (\<lambda>x. x = 0)) M" "np_max M = Inr m"
  shows "m = 0"
proof -
  have z: "list_all (\<lambda>x. x = 0) (concat M)"
    using assms(1) by (auto simp: list_all_iff)
  show ?thesis
  proof (cases "concat M")
    case Nil
    with assms(2) show ?thesis by (simp add: np_max_def)
  next
    case (Cons x xs)
    with z have "x = 0" "list_all (\<lambda>x. x = 0) xs" by simp_all
    with assms(2) Cons show ?thesis
      by (simp add: np_max_def fold_max_zero)
  qed
qed

lemma zero_cell:
  assumes "list_all (list_all (\<lambda>x. x = 0)) M" "i < length M" "j < length (M ! i)"
  shows "M ! i ! j = 0"
  using assms by (simp add: list_all_length)

lemma map_zero_row: "list_all (\<lambda>x. x = 0) r \<Longrightarrow> map f r = replicate (length r) (f (0 :: real))"
  by (induction r) simp_all

lemma map_zero_matrix:
  assumes "list_all (list_all (\<lambda>x. x = 0)) M" "list_all (\<lambda>r. length r = n) M"
  shows "map (map f) M = replicate (length M) (replicate n (f (0 :: real)))"
  using assms by (induction M) (simp_all add: map_zero_row)

text \<open>
  C6, as amended. For a square, non-empty tensor whose entries are all zero, with one
  name per variable, neither thresholding operation raises an exception:
  \<^verbatim>\<open>causal_graph\<close> returns a graph with one edge for every pair of variables, each of
  pen width \<^verbatim>\<open>nan\<close> (five times 0 / 0), and \<^verbatim>\<open>causal_heatmap\<close> in the mode
  \<^verbatim>\<open>'joint_threshold'\<close> displays the matrix whose every cell is 1.
\<close>

theorem zero_tensor_thresholding:
  assumes "tensor_shape p p K W" "0 < p" "length var_names = p"
    and "list_all (list_all (list_all (\<lambda>x. x = 0))) W"
  shows "(\<exists>dot r. causal_graph W var_names threshold use_circo_layout dst filename = Inr (dot, r)
            \<and> edges dot =
                map (\<lambda>(effect, cause). Edge (var_names ! cause) (var_names ! effect) NaN ''1'')
                  (List.product [0..<p] [0..<p]))
     \<and> images (causal_heatmap strict W var_names ''joint_threshold'' ord threshold None
          file_header ext) = [replicate p (replicate p 1)]
     \<and> snd (causal_heatmap strict W var_names ''joint_threshold'' ord threshold None
          file_header ext) = None"
proof -
  let ?N = "norm_last_axis W"
  obtain m where m: "np_max ?N = Inr m"
    using np_max_some [OF norm_shape [OF assms(1)] assms(2) assms(2)] by blast
  have m0: "m = 0"
    using np_max_zero [OF zero_norm_last_axis [OF assms(4)] m] .
  have cell: "?N ! e ! c = 0" if "e < p" "c < p" for e c
    using zero_cell [OF zero_norm_last_axis [OF assms(4)], of e c] that norm_shape [OF assms(1)]
    by (simp add: list_all_length)
  have all: "filter (\<lambda>(e, c). ?N ! e ! c \<ge> threshold * m) (List.product [0..<p] [0..<p])
      = List.product [0..<p] [0..<p]"
    by (rule filter_True) (auto simp: m0 cell)
  have pen: "map (\<lambda>(e, c). Edge (var_names ! c) (var_names ! e)
          (np_scale 5 (np_divide (?N ! e ! c) m)) ''1'') (List.product [0..<p] [0..<p])
      = map (\<lambda>(e, c). Edge (var_names ! c) (var_names ! e) NaN ''1'')
          (List.product [0..<p] [0..<p])"
    by (rule map_cong) (auto simp: m0 cell np_divide_def)
  have graph: "\<exists>dot r. causal_graph W var_names threshold use_circo_layout dst filename
        = Inr (dot, r)
      \<and> edges dot =
          map (\<lambda>(effect, cause). Edge (var_names ! cause) (var_names ! effect) NaN ''1'')
            (List.product [0..<p] [0..<p])"
    using pen
    by (simp add: causal_graph_result [OF assms(1,3) m] edges_def edges_append_nodes all)
  let ?M = "norm_axis2 ord W"
  obtain m' where m': "np_max ?M = Inr m'"
    using np_max_some [OF norm_axis2_shape [OF assms(1)] assms(2) assms(2)] by blast
  have m'0: "m' = 0"
    using np_max_zero [OF zero_norm_axis2 [OF assms(4)] m'] .
  from assms(1,2) obtain W0 Ws where W: "W = W0 # Ws"
    by (cases W) (auto simp: tensor_shape_def)
  with assms(1) have p: "length W0 = p"
    by (simp add: tensor_shape_def)
  have ones: "map (map (\<lambda>x. if x \<ge> threshold * m' then 1 else 0)) ?M
      = replicate p (replicate p (1 :: real))"
    using map_zero_matrix [OF zero_norm_axis2 [OF assms(4)] norm_axis2_shape(2) [OF assms(1)],
        where f = "\<lambda>x. if x \<ge> threshold * m' then 1 else 0" and ord1 = ord]
    by (simp add: m'0 norm_axis2_shape(1) [OF assms(1)])
  have heat: "images (causal_heatmap strict W var_names ''joint_threshold'' ord threshold None
          file_header ext) = [replicate p (replicate p 1)]
      \<and> snd (causal_heatmap strict W var_names ''joint_threshold'' ord threshold None
          file_header ext) = None"
    using m' ones unfolding W
    by (simp add: heatmap_joint_threshold images_then_run_ok snd_then_run_ok
        images_joint_plot snd_joint_plot p assms(3) split del: if_split)
  from graph heat show ?thesis by blast
qed

theorem zero_tensor_thresholding_counterexample:
  "causal_graph [[[0]]] [''A''] (1 / 10) None None ''graph''
     = Inr (\<lparr>graph_attr = [''margin'' \<mapsto> ''0'', ''rankdir'' \<mapsto> ''LR'', ''layout'' \<mapsto> ''circo''],
             body = [Node ''A'' ''A'', Edge ''A'' ''A'' NaN ''1'']\<rparr>, None)
   \<and> causal_heatmap True [[[0]]] [''A''] ''joint_threshold'' 2 (1 / 10) None None ''png''
     = ([Print ''Autocorrelation during analysis: False'', Figure 1 1,
         Imshow [[1]] ''Greys'', Xlabel (''Cause'' @ [CHR 0x0A]) 16, Xticks [0] [Name ''A''],
         Ylabel ''Response'' 16, Yticks [0] [Name ''A''], XaxisLabelTop, XaxisTickTop,
         Clim 0 None, Pause], None)"
  by (simp add: causal_graph_def causal_heatmap_def has_autocorrelation_def np_diag_def
      norm_last_axis_def l2_norm_single norm_axis2_def vector_norm_def np_max_def
      np_where_ge_def np_where_lt_def py_index_def np_divide_def set_attr_def add_stmt_def
      Digraph_def ok_def fail_def joint_plot_def steps_def plt_xticks_def plt_yticks_def
      save_overall_def)

theorem zero_tensor_thresholding_witness:
  "tensor_shape 1 1 1 [[[0]]]
   \<and> (\<exists>dot r. causal_graph [[[0]]] [''A''] (1 / 10) None None ''graph'' = Inr (dot, r)
         \<and> edges dot = [Edge ''A'' ''A'' NaN ''1''])
   \<and> images (causal_heatmap True [[[0]]] [''A''] ''joint_threshold'' 2 (1 / 10) None None ''png'')
       = [[[1]]]
   \<and> snd (causal_heatmap True [[[0]]] [''A''] ''joint_threshold'' 2 (1 / 10) None None ''png'')
       = None"
proof -
  have sh: "tensor_shape 1 1 1 [[[0]]]"
    by (simp add: tensor_shape_def)
  show ?thesis
    using sh zero_tensor_thresholding [OF sh, of "[''A'']" "1 / 10" None None "''graph''" True 2 None "''png''"]
    by simp
qed

end
